theory Spec2Isabelle
  imports Main
begin

section \<open>Configuration and enumerations (bot.py, lines 20-32)\<close>

text \<open>
  \<^verbatim>\<open>Config.RATE_LIMIT = {'max_attempts': 5, 'period': 60}\<close>. The two entries of the
  dictionary are the two constants below; the period is in seconds.
\<close>

definition RATE_LIMIT_max_attempts :: nat where
  "RATE_LIMIT_max_attempts = 5"

definition RATE_LIMIT_period :: int where
  "RATE_LIMIT_period = 60"

text \<open>\<^verbatim>\<open>class SchoolLevel(Enum)\<close>, with the \<^verbatim>\<open>.value\<close> of each member and the lookup by
  value \<^verbatim>\<open>SchoolLevel(v)\<close>, which raises ValueError on anything else (None here).\<close>

datatype SchoolLevel = ELEMENTARY | MIDDLE

fun SchoolLevel_value :: "SchoolLevel \<Rightarrow> string" where
  "SchoolLevel_value ELEMENTARY = ''elementary''"
| "SchoolLevel_value MIDDLE = ''middle''"

definition SchoolLevel_of_value :: "string \<Rightarrow> SchoolLevel option" where
  "SchoolLevel_of_value v =
     (if v = ''elementary'' then Some ELEMENTARY
      else if v = ''middle'' then Some MIDDLE
      else None)"


section \<open>Static tables (bot.py, lines 84-120)\<close>

text \<open>
  One entry of \<^verbatim>\<open>ColumnMapping\<close>: the inner dictionary of a term. The keys every term has
  are plain fields; \<^verbatim>\<open>'conduct'\<close> (absent for \<^verbatim>\<open>'Ave'\<close>) and \<^verbatim>\<open>'remark'\<close> (absent for
  \<^verbatim>\<open>'S1'\<close> and \<^verbatim>\<open>'S2'\<close>) are optional ones.
\<close>

record column_mapping =
  col_student_no :: nat
  col_name :: nat
  col_sex :: nat
  col_age :: nat
  col_subjects :: "nat list"
  col_conduct :: "nat option"
  col_sum :: nat
  col_average :: nat
  col_rank :: nat
  col_remark :: "nat option"

definition ColumnMapping_ELEMENTARY :: "string \<rightharpoonup> column_mapping" where
  "ColumnMapping_ELEMENTARY = map_of
     [(''S1'', \<lparr>col_student_no = 1, col_name = 3, col_sex = 4, col_age = 5,
               col_subjects = [6, 7, 8, 9, 10, 11, 12, 13],
               col_conduct = Some 14, col_sum = 15, col_average = 16, col_rank = 17,
               col_remark = None\<rparr>),
      (''S2'', \<lparr>col_student_no = 1, col_name = 3, col_sex = 4, col_age = 5,
               col_subjects = [6, 7, 8, 9, 10, 11, 12, 13],
               col_conduct = Some 14, col_sum = 15, col_average = 16, col_rank = 17,
               col_remark = None\<rparr>),
      (''Ave'', \<lparr>col_student_no = 1, col_name = 2, col_sex = 3, col_age = 4,
                col_subjects = [5, 6, 7, 8, 9, 10, 11, 12],
                col_conduct = None, col_sum = 13, col_average = 14, col_rank = 15,
                col_remark = Some 16\<rparr>)]"

definition ColumnMapping_MIDDLE :: "string \<rightharpoonup> column_mapping" where
  "ColumnMapping_MIDDLE = map_of
     [(''S1'', \<lparr>col_student_no = 1, col_name = 3, col_sex = 4, col_age = 5,
               col_subjects = [6, 7, 8, 9, 10, 11, 12, 13, 14, 15, 16],
               col_conduct = Some 17, col_sum = 18, col_average = 19, col_rank = 20,
               col_remark = None\<rparr>),
      (''S2'', \<lparr>col_student_no = 1, col_name = 3, col_sex = 4, col_age = 5,
               col_subjects = [6, 7, 8, 9, 10, 11, 12, 13, 14, 15, 16],
               col_conduct = Some 17, col_sum = 18, col_average = 19, col_rank = 20,
               col_remark = None\<rparr>),
      (''Ave'', \<lparr>col_student_no = 1, col_name = 2, col_sex = 3, col_age = 4,
                col_subjects = [5, 6, 7, 8, 9, 10, 11, 12, 13, 14, 15],
                col_conduct = None, col_sum = 16, col_average = 17, col_rank = 18,
                col_remark = Some 19\<rparr>)]"

fun ColumnMapping :: "SchoolLevel \<Rightarrow> string \<rightharpoonup> column_mapping" where
  "ColumnMapping ELEMENTARY = ColumnMapping_ELEMENTARY"
| "ColumnMapping MIDDLE = ColumnMapping_MIDDLE"

text \<open>
  The subject names are Python strings, that is sequences of Unicode code points; the
  Amharic ones lie outside the 8-bit range of \<^typ>\<open>char\<close>, so a name is the list of its
  code points, and \<open>ascii\<close> reads an ASCII literal as such a list.
\<close>

type_synonym ustr = "nat list"

definition ascii :: "string \<Rightarrow> ustr" where
  "ascii s = map of_char s"

definition Subjects_ELEMENTARY :: "string \<rightharpoonup> ustr list" where
  "Subjects_ELEMENTARY = map_of
     [(''en'', [ascii ''Amharic'', ascii ''English'', ascii ''Arabic'', ascii ''Maths'',
               ascii ''E.S'', ascii ''Moral Edu'', ascii ''Art'', ascii ''HPE'']),
      (''am'', [[0x12a0, 0x121b, 0x122d, 0x129b],
               [0x12a5, 0x1295, 0x130d, 0x120a, 0x12dd, 0x129b],
               [0x12a0, 0x1228, 0x1265, 0x129b],
               [0x1212, 0x1233, 0x1265],
               [0x12a2, 0x2e, 0x12a4, 0x1235],
               [0x1225, 0x1290, 0x20, 0x121d, 0x130d, 0x1263, 0x122d, 0x20,
                0x1275, 0x121d, 0x1205, 0x122d, 0x1275],
               [0x1225, 0x1290, 0x20, 0x1325, 0x1260, 0x1265],
               [0x12a4, 0x127d, 0x2e, 0x1352, 0x2e, 0x12a2]])]"

definition Subjects_MIDDLE :: "string \<rightharpoonup> ustr list" where
  "Subjects_MIDDLE = map_of
     [(''en'', [ascii ''Amharic'', ascii ''English'', ascii ''Arabic'', ascii ''Maths'',
               ascii ''General Science'', ascii ''Geography'', ascii ''Citizenship'',
               ascii ''CTE'', ascii ''ICT'', ascii ''Art'', ascii ''HPE'']),
      (''am'', [[0x12a0, 0x121b, 0x122d, 0x129b],
               [0x12a5, 0x1295, 0x130d, 0x120a, 0x12dd, 0x129b],
               [0x12a0, 0x1228, 0x1265, 0x129b],
               [0x1212, 0x1233, 0x1265],
               [0x12a0, 0x1320, 0x1243, 0x120b, 0x12ed, 0x20, 0x1233, 0x12ed, 0x1295, 0x1235],
               [0x1302, 0x12a6, 0x130d, 0x122b, 0x134a],
               [0x12dc, 0x130d, 0x1290, 0x1275],
               [0x1232, 0x2e, 0x1272, 0x2e, 0x12a2],
               [0x12a0, 0x12ed, 0x2e, 0x1232, 0x2e, 0x1272],
               [0x1225, 0x1290, 0x20, 0x1325, 0x1260, 0x1265],
               [0x12a4, 0x127d, 0x2e, 0x1352, 0x2e, 0x12a2]])]"

fun Subjects :: "SchoolLevel \<Rightarrow> string \<rightharpoonup> ustr list" where
  "Subjects ELEMENTARY = Subjects_ELEMENTARY"
| "Subjects MIDDLE = Subjects_MIDDLE"


section \<open>Cell values (bot.py, lines 142-143)\<close>

text \<open>
  \<^verbatim>\<open>get_value(cell)\<close> is handed \<^verbatim>\<open>None\<close>, a worksheet cell (whose \<^verbatim>\<open>value\<close> may be
  \<^verbatim>\<open>None\<close>) or, as far as the \<^verbatim>\<open>hasattr\<close> test is concerned, some other object that has
  no \<^verbatim>\<open>value\<close> attribute. Worksheet cells are always truthy. A value is a string or
  anything else a worksheet holds (a number, a boolean, a date), which the function never
  inspects; the sentinel it returns is the string \<^verbatim>\<open>'N/A'\<close>.
\<close>

datatype 'v cell_value = Text string | NonText 'v

datatype 'v cell = PyNone | Cell "'v cell_value option" | NoValueAttr

fun truthy :: "'v cell \<Rightarrow> bool" where
  "truthy PyNone = False"
| "truthy (Cell v) = True"
| "truthy NoValueAttr = True"

fun hasattr_value :: "'v cell \<Rightarrow> bool" where
  "hasattr_value (Cell v) = True"
| "hasattr_value PyNone = False"
| "hasattr_value NoValueAttr = False"

fun cell_dot_value :: "'v cell \<Rightarrow> 'v cell_value option" where
  "cell_dot_value (Cell v) = v"
| "cell_dot_value PyNone = None"
| "cell_dot_value NoValueAttr = None"

definition get_value :: "'v cell \<Rightarrow> 'v cell_value" where
  "get_value cell =
     (if truthy cell \<and> hasattr_value cell \<and> cell_dot_value cell \<noteq> None
      then the (cell_dot_value cell)
      else Text ''N/A'')"


section \<open>Rate limiting (bot.py, lines 174-184)\<close>

text \<open>
  A \<^verbatim>\<open>datetime\<close> is a count of microseconds, its resolution, so that
  \<^verbatim>\<open>timedelta(seconds=n)\<close> is \<open>n * 1000000\<close> and \<^verbatim>\<open>now - t\<close> is the difference of two
  integers, negative when the clock went back. \<^verbatim>\<open>user_attempts\<close> is a
  \<^verbatim>\<open>defaultdict(list)\<close>: a total function from identities to lists, the list empty where
  nothing was stored.
\<close>

type_synonym datetime = int

definition timedelta_seconds :: "int \<Rightarrow> int" where
  "timedelta_seconds n = n * 1000000"

type_synonym attempts = "string \<Rightarrow> datetime list"

definition no_attempts :: attempts where
  "no_attempts = (\<lambda>user_id. [])"

definition is_rate_limited :: "string \<Rightarrow> datetime \<Rightarrow> attempts \<Rightarrow> bool \<times> attempts" where
  "is_rate_limited user_id now user_attempts =
     (let attempts = filter (\<lambda>t. now - t < timedelta_seconds RATE_LIMIT_period)
                            (user_attempts user_id);
          user_attempts1 = user_attempts(user_id := attempts)
      in if length attempts \<ge> RATE_LIMIT_max_attempts then (True, user_attempts1)
         else (False, user_attempts1(user_id := user_attempts1 user_id @ [now])))"

text \<open>A run of checks, each by some identity at some time, in order; it returns the
  answers and the attempts stored at the end.\<close>

fun checks :: "(string \<times> datetime) list \<Rightarrow> attempts \<Rightarrow> bool list \<times> attempts" where
  "checks [] ua = ([], ua)"
| "checks ((user_id, now) # rest) ua =
     (case is_rate_limited user_id now ua of
        (limited, ua1) \<Rightarrow> (case checks rest ua1 of (ls, ua2) \<Rightarrow> (limited # ls, ua2)))"


section \<open>Python strings (as far as the handlers use them)\<close>

text \<open>
  The text of a message and the columns of the database are \<^typ>\<open>string\<close>s, one
  \<^typ>\<open>char\<close> for each code point, which restricts them to the code points below 256.
  On these, \<^verbatim>\<open>str.isspace\<close> holds of the six ASCII blanks, the four separators
  \<^verbatim>\<open>\x1c\<close> to \<^verbatim>\<open>\x1f\<close>, \<^verbatim>\<open>\x85\<close> and \<^verbatim>\<open>\xa0\<close>; \<^verbatim>\<open>str.isdigit\<close> holds of the ten ASCII
  digits and of the superscripts \<^verbatim>\<open>\xb2\<close>, \<^verbatim>\<open>\xb3\<close> and \<^verbatim>\<open>\xb9\<close>, which \<^verbatim>\<open>int\<close> refuses.
\<close>

definition isspace :: "char \<Rightarrow> bool" where
  "isspace c = ((of_char c :: nat) \<in> set [9, 10, 11, 12, 13, 28, 29, 30, 31, 32, 133, 160])"

text \<open>\<^verbatim>\<open>s.split()\<close>: the maximal runs of non-blank characters, in order.\<close>

fun split_from :: "string \<Rightarrow> string \<Rightarrow> string list" where
  "split_from word [] = (if word = [] then [] else [word])"
| "split_from word (c # cs) =
     (if isspace c then (if word = [] then split_from [] cs else word # split_from [] cs)
      else split_from (word @ [c]) cs)"

definition split :: "string \<Rightarrow> string list" where
  "split s = split_from [] s"

definition is_ascii_digit :: "char \<Rightarrow> bool" where
  "is_ascii_digit c = ((48::nat) \<le> of_char c \<and> (of_char c :: nat) \<le> 57)"

definition isdigit_char :: "char \<Rightarrow> bool" where
  "isdigit_char c = (is_ascii_digit c \<or> (of_char c :: nat) \<in> set [178, 179, 185])"

definition isdigit :: "string \<Rightarrow> bool" where
  "isdigit s = (s \<noteq> [] \<and> list_all isdigit_char s)"

datatype exn = OperationalError | IntegrityError | ValueError | KeyError | ApiException

text \<open>
  \<^verbatim>\<open>int(s)\<close> as \<^verbatim>\<open>register_user\<close> reaches it, on a string that passed \<^verbatim>\<open>isdigit\<close> (so
  with no sign, blank or underscore to take care of): the decimal value when every
  character is an ASCII digit, ValueError otherwise. (The text of a message has at most
  4096 characters, fewer than the 4300 digits from which \<^verbatim>\<open>int\<close> refuses a string.)
\<close>

definition int_of_str :: "string \<Rightarrow> exn + int" where
  "int_of_str s =
     (if s \<noteq> [] \<and> list_all is_ascii_digit s
      then Inr (foldl (\<lambda>acc c. 10 * acc + (int (of_char c) - 48)) 0 s)
      else Inl ValueError)"

text \<open>\<^verbatim>\<open>f"{n:06d}"\<close>: the decimal digits of \<open>n\<close>, padded with zeros on the left to six
  characters (and longer than six when \<open>n\<close> has more digits).\<close>

fun str_nat :: "nat \<Rightarrow> string" where
  "str_nat n =
     (if n < 10 then [''0123456789'' ! n]
      else str_nat (n div 10) @ [''0123456789'' ! (n mod 10)])"

declare str_nat.simps [simp del]

definition format_06d :: "nat \<Rightarrow> string" where
  "format_06d n = replicate (6 - length (str_nat n)) (CHR ''0'') @ str_nat n"

text \<open>\<^verbatim>\<open>secrets.randbelow(n)\<close> returns some number below \<open>n\<close>; which one is the
  environment's choice, given here as a number that is reduced into the range.\<close>

definition randbelow :: "nat \<Rightarrow> nat \<Rightarrow> nat" where
  "randbelow n entropy = entropy mod n"


section \<open>The database (bot.py, lines 48-76 and 123-134)\<close>

text \<open>
  The two tables of \<^verbatim>\<open>init_db\<close>, a row a record of its columns. Every column but the
  primary key may be NULL. A table is the list of its rows in insertion order.
  \<open>outages\<close> is the environment's script for the coming calls of \<^verbatim>\<open>db_execute\<close>: one
  flag for each, \<open>True\<close> when the connection or the statement fails; when the script is
  used up every call goes through. \<open>send_outages\<close> is the same for the coming calls of
  \<^verbatim>\<open>bot.reply_to\<close>.
\<close>

record user_row =
  user_id :: string
  grade_section :: "string option"
  student_no :: "string option"
  pin :: "string option"
  language :: "string option"
  school_level :: "string option"
  registered_at :: "datetime option"

record identifier_row =
  id_pin :: string
  id_grade_section :: "string option"
  id_student_no :: "string option"
  telegram_id :: "string option"
  id_school_level :: "string option"

record store =
  users :: "user_row list"
  student_identifiers :: "identifier_row list"
  outages :: "bool list"
  send_outages :: "bool list"

type_synonym 'a db = "store \<Rightarrow> (exn + 'a) \<times> store"

text \<open>
  \<^verbatim>\<open>db_execute(query, params, fetch)\<close>: it connects, runs the statement and fetches the
  rows or commits. A failure raises before anything is committed, so the tables are as
  they were (a failure of closing the cursor or the connection, after the commit, is not
  modelled); the statement is a function on the store, one for each query text of the
  source, below.
\<close>

definition db_execute :: "'a db \<Rightarrow> 'a db" where
  "db_execute statement s =
     (case outages s of
        [] \<Rightarrow> statement s
      | down # rest \<Rightarrow>
          (if down then (Inl OperationalError, s\<lparr>outages := rest\<rparr>)
           else statement (s\<lparr>outages := rest\<rparr>)))"

text \<open>\<^verbatim>\<open>SELECT pin FROM student_identifiers WHERE pin=%s\<close>\<close>

definition select_pin :: "string \<Rightarrow> string list db" where
  "select_pin p s = (Inr (map id_pin (filter (\<lambda>r. id_pin r = p) (student_identifiers s))), s)"

text \<open>\<^verbatim>\<open>SELECT language FROM users WHERE user_id=%s\<close>\<close>

definition select_language :: "string \<Rightarrow> string option list db" where
  "select_language uid s = (Inr (map language (filter (\<lambda>r. user_id r = uid) (users s))), s)"

text \<open>\<^verbatim>\<open>SELECT school_level FROM users WHERE user_id=%s\<close>\<close>

definition select_school_level :: "string \<Rightarrow> string option list db" where
  "select_school_level uid s =
     (Inr (map school_level (filter (\<lambda>r. user_id r = uid) (users s))), s)"

text \<open>\<^verbatim>\<open>SELECT grade_section, student_no FROM users WHERE user_id=%s\<close>\<close>

definition select_grade_section_student_no ::
  "string \<Rightarrow> (string option \<times> string option) list db" where
  "select_grade_section_student_no uid s =
     (Inr (map (\<lambda>r. (grade_section r, student_no r))
               (filter (\<lambda>r. user_id r = uid) (users s))), s)"

text \<open>\<^verbatim>\<open>INSERT INTO student_identifiers (pin, grade_section, student_no, telegram_id,
  school_level) VALUES (%s, %s, %s, %s, %s)\<close>; the primary key refuses a PIN that a row
  already has.\<close>

definition insert_student_identifier ::
  "string \<Rightarrow> string \<Rightarrow> string \<Rightarrow> string \<Rightarrow> string \<Rightarrow> unit db" where
  "insert_student_identifier p gs sn tid lvl s =
     (if p \<in> set (map id_pin (student_identifiers s)) then (Inl IntegrityError, s)
      else (Inr (),
            s\<lparr>student_identifiers := student_identifiers s @
                 [\<lparr>id_pin = p, id_grade_section = Some gs, id_student_no = Some sn,
                   telegram_id = Some tid, id_school_level = Some lvl\<rparr>]\<rparr>))"

text \<open>\<^verbatim>\<open>UPDATE users SET grade_section=%s, student_no=%s, pin=%s WHERE user_id=%s\<close>; it
  succeeds also when no row matches, changing nothing.\<close>

definition update_user :: "string \<Rightarrow> string \<Rightarrow> string \<Rightarrow> string \<Rightarrow> unit db" where
  "update_user gs sn p uid s =
     (Inr (),
      s\<lparr>users := map (\<lambda>r. if user_id r = uid
                            then r\<lparr>grade_section := Some gs, student_no := Some sn, pin := Some p\<rparr>
                            else r) (users s)\<rparr>)"


section \<open>Identity store (bot.py, lines 150-172)\<close>

text \<open>
  \<^verbatim>\<open>generate_unique_pin\<close>: \<open>draws i\<close> is the environment's number for the draw of
  iteration \<open>i\<close>; \<open>pin_attempts n i\<close> is the loop with \<open>n\<close> iterations left, about to run
  iteration \<open>i\<close>. A failure of the query leaves the loop as the exception does.
\<close>

fun pin_attempts :: "nat \<Rightarrow> nat \<Rightarrow> (nat \<Rightarrow> nat) \<Rightarrow> string db" where
  "pin_attempts 0 i draws s = (Inl ValueError, s)"
| "pin_attempts (Suc n) i draws s =
     (let p = format_06d (randbelow 1000000 (draws i))
      in case db_execute (select_pin p) s of
           (Inl e, s1) \<Rightarrow> (Inl e, s1)
         | (Inr rows, s1) \<Rightarrow> if rows = [] then (Inr p, s1) else pin_attempts n (Suc i) draws s1)"

definition generate_unique_pin :: "(nat \<Rightarrow> nat) \<Rightarrow> string db" where
  "generate_unique_pin draws s = pin_attempts 100 0 draws s"

text \<open>\<^verbatim>\<open>get_user_language\<close>: \<^verbatim>\<open>result[0][0]\<close> is the column of the first row, which is
  \<^verbatim>\<open>None\<close> when the column is NULL.\<close>

definition get_user_language :: "string \<Rightarrow> string option db" where
  "get_user_language uid s =
     (case db_execute (select_language uid) s of
        (Inl e, s1) \<Rightarrow> (Inl e, s1)
      | (Inr result, s1) \<Rightarrow>
          (case result of [] \<Rightarrow> (Inr (Some ''en''), s1) | l # _ \<Rightarrow> (Inr l, s1)))"

text \<open>\<^verbatim>\<open>get_user_school_level\<close>: \<^verbatim>\<open>None\<close> without a row; \<^verbatim>\<open>SchoolLevel(result[0][0])\<close>
  raises ValueError on NULL and on a value that is no member's.\<close>

definition get_user_school_level :: "string \<Rightarrow> SchoolLevel option db" where
  "get_user_school_level uid s =
     (case db_execute (select_school_level uid) s of
        (Inl e, s1) \<Rightarrow> (Inl e, s1)
      | (Inr result, s1) \<Rightarrow>
          (case result of
             [] \<Rightarrow> (Inr None, s1)
           | v # _ \<Rightarrow>
               (case v of
                  None \<Rightarrow> (Inl ValueError, s1)
                | Some x \<Rightarrow>
                    (case SchoolLevel_of_value x of
                       None \<Rightarrow> (Inl ValueError, s1)
                     | Some lvl \<Rightarrow> (Inr (Some lvl), s1)))))"


section \<open>The register command (bot.py, lines 186-216 and 247-308)\<close>

text \<open>
  What the handler sends with \<^verbatim>\<open>bot.reply_to\<close>, one constructor for each text of the
  source; \<open>Localized lang key\<close> is the entry \<^verbatim>\<open>MESSAGES[lang][key]\<close>. An exception that
  leaves the handler is the \<open>Inl\<close> of its result, and then nothing was sent; \<open>Inr r\<close>
  says that \<open>r\<close> was sent, the last thing the handler did. The lines written to the log
  are not part of the model.
\<close>

datatype reply =
    SelectSchoolLevelFirst
  | Localized string string
  | InvalidGradeSection
  | InvalidStudentNumber
  | AlreadyRegistered
  | RegistrationSuccessful string
  | RegistrationFailed
  | TooManyRequests

text \<open>\<^verbatim>\<open>MESSAGES[lang][key]\<close>: both languages have the same seven keys; any other
  language (\<^verbatim>\<open>None\<close> included) or key raises KeyError.\<close>

definition MESSAGES :: "string option \<Rightarrow> string \<Rightarrow> exn + reply" where
  "MESSAGES lang key =
     (case lang of
        None \<Rightarrow> Inl KeyError
      | Some l \<Rightarrow>
          (if l \<in> set [''en'', ''am''] \<and>
              key \<in> set [''welcome'', ''select_school_level'', ''elementary'', ''middle'',
                         ''register_usage'', ''login_usage'', ''help'']
           then Inr (Localized l key) else Inl KeyError))"

text \<open>\<^verbatim>\<open>bot.reply_to(message, text)\<close>: it sends the text, or raises when the request to
  the chat service fails.\<close>

definition reply_to :: "reply \<Rightarrow> reply db" where
  "reply_to r s =
     (case send_outages s of
        [] \<Rightarrow> (Inr r, s)
      | down # rest \<Rightarrow>
          (if down then (Inl ApiException, s\<lparr>send_outages := rest\<rparr>)
           else (Inr r, s\<lparr>send_outages := rest\<rparr>)))"

text \<open>A message: \<open>from_user_id\<close> is \<^verbatim>\<open>str(message.from_user.id)\<close>, \<open>msg_text\<close> is \<^verbatim>\<open>message.text\<close>.\<close>

record message =
  from_user_id :: string
  msg_text :: string

definition valid_sections :: "SchoolLevel \<Rightarrow> string list" where
  "valid_sections level =
     (if level = ELEMENTARY
      then [''1A'', ''1B'', ''1C'', ''2A'', ''2B'', ''2C'', ''3A'', ''3B'', ''4A'', ''4B'',
            ''5A'', ''5B'', ''6A'', ''6B'']
      else [''7A'', ''7B'', ''8A'', ''8B''])"

text \<open>
  The \<^verbatim>\<open>try\<close> block of \<^verbatim>\<open>register_user\<close> (lines 291-308) with its \<^verbatim>\<open>except\<close> clause,
  which catches whatever the block raises and answers that the registration failed. The
  block is the PIN generation, the two writes and the sending of the PIN, so that a PIN
  that cannot be sent is answered in the same way, after both writes. Each of the two
  writes is a \<^verbatim>\<open>db_execute\<close> of its own, committed on its own. What the \<^verbatim>\<open>except\<close>
  clause sends may fail as well, and that exception leaves the handler.
\<close>

definition register_user_try ::
  "string \<Rightarrow> string \<Rightarrow> string \<Rightarrow> SchoolLevel \<Rightarrow> (nat \<Rightarrow> nat) \<Rightarrow> reply db" where
  "register_user_try uid gs sn level draws s =
     (case generate_unique_pin draws s of
        (Inl e, s1) \<Rightarrow> reply_to RegistrationFailed s1
      | (Inr p, s1) \<Rightarrow>
          (case db_execute (insert_student_identifier p gs sn uid
                              (SchoolLevel_value level)) s1 of
             (Inl e, s2) \<Rightarrow> reply_to RegistrationFailed s2
           | (Inr u, s2) \<Rightarrow>
               (case db_execute (update_user gs sn p uid) s2 of
                  (Inl e, s3) \<Rightarrow> reply_to RegistrationFailed s3
                | (Inr u', s3) \<Rightarrow>
                    (case reply_to (RegistrationSuccessful p) s3 of
                       (Inl e, s4) \<Rightarrow> reply_to RegistrationFailed s4
                     | (Inr r, s4) \<Rightarrow> (Inr r, s4)))))"

text \<open>\<^verbatim>\<open>register_user\<close>, the function under the decorator, check by check in the order
  of the source.\<close>

definition register_user :: "message \<Rightarrow> (nat \<Rightarrow> nat) \<Rightarrow> reply db" where
  "register_user m draws s =
     (let uid = from_user_id m in
      case get_user_language uid s of
        (Inl e, s1) \<Rightarrow> (Inl e, s1)
      | (Inr lang, s1) \<Rightarrow>
     (case get_user_school_level uid s1 of
        (Inl e, s2) \<Rightarrow> (Inl e, s2)
      | (Inr None, s2) \<Rightarrow> reply_to SelectSchoolLevelFirst s2
      | (Inr (Some level), s2) \<Rightarrow>
     (let args = split (msg_text m) in
      if length args \<noteq> 3
      then (case MESSAGES lang ''register_usage'' of
              Inl e \<Rightarrow> (Inl e, s2)
            | Inr usage \<Rightarrow> reply_to usage s2)
      else
     (let gs = args ! 1; sn = args ! 2 in
      if gs \<notin> set (valid_sections level) then reply_to InvalidGradeSection s2
      else if \<not> isdigit sn then reply_to InvalidStudentNumber s2
      else
     (case int_of_str sn of
        Inl e \<Rightarrow> (Inl e, s2)
      | Inr n \<Rightarrow>
          if \<not> (1 \<le> n \<and> n \<le> 60) then reply_to InvalidStudentNumber s2
          else
     (case db_execute (select_grade_section_student_no uid) s2 of
        (Inl e, s3) \<Rightarrow> (Inl e, s3)
      | (Inr existing_user, s3) \<Rightarrow>
          if existing_user \<noteq> [] then reply_to AlreadyRegistered s3
          else register_user_try uid gs sn level draws s3))))))"

text \<open>
  The decorator \<^verbatim>\<open>rate_limited\<close>: the check comes first; when it blocks, the language
  is looked up (and not used) and the fixed text is sent. The state is the stored
  attempts together with the database.
\<close>

definition rate_limited ::
  "(message \<Rightarrow> 'x \<Rightarrow> reply db) \<Rightarrow> message \<Rightarrow> datetime \<Rightarrow> 'x \<Rightarrow> attempts \<times> store
     \<Rightarrow> (exn + reply) \<times> attempts \<times> store" where
  "rate_limited func m now x st =
     (case st of (ua, s) \<Rightarrow>
      (case is_rate_limited (from_user_id m) now ua of
         (limited, ua1) \<Rightarrow>
           if limited
           then (case get_user_language (from_user_id m) s of
                   (Inl e, s1) \<Rightarrow> (Inl e, ua1, s1)
                 | (Inr lang, s1) \<Rightarrow>
                     (case reply_to TooManyRequests s1 of (r, s2) \<Rightarrow> (r, ua1, s2)))
           else (case func m x s of (r, s1) \<Rightarrow> (r, ua1, s1))))"

text \<open>The handler of \<^verbatim>\<open>/register\<close>: \<^verbatim>\<open>register_user\<close> as decorated.\<close>

definition on_register ::
  "message \<Rightarrow> datetime \<Rightarrow> (nat \<Rightarrow> nat) \<Rightarrow> attempts \<times> store \<Rightarrow> (exn + reply) \<times> attempts \<times> store" where
  "on_register = rate_limited register_user"


section \<open>Notions the properties are stated with\<close>

text \<open>The rows of the identifier table that carry a PIN: what a lookup by PIN finds.\<close>

definition rows_with_pin :: "string \<Rightarrow> store \<Rightarrow> identifier_row list" where
  "rows_with_pin p s = filter (\<lambda>r. id_pin r = p) (student_identifiers s)"

definition pins :: "store \<Rightarrow> string list" where
  "pins s = map id_pin (student_identifiers s)"

text \<open>A registration request as the \<^verbatim>\<open>try\<close> block receives it, with the draws of its PIN
  generation; a run of requests, one after the other, gives the outcomes in order, and
  the PINs issued are those that were sent.\<close>

record request =
  req_user_id :: string
  req_grade_section :: string
  req_student_no :: string
  req_school_level :: SchoolLevel
  req_draws :: "nat \<Rightarrow> nat"

fun registrations :: "request list \<Rightarrow> store \<Rightarrow> (exn + reply) list \<times> store" where
  "registrations [] s = ([], s)"
| "registrations (q # qs) s =
     (case register_user_try (req_user_id q) (req_grade_section q) (req_student_no q)
             (req_school_level q) (req_draws q) s of
        (r, s1) \<Rightarrow> (case registrations qs s1 of (rs, s2) \<Rightarrow> (r # rs, s2)))"

fun issued_pins :: "(exn + reply) list \<Rightarrow> string list" where
  "issued_pins [] = []"
| "issued_pins (Inr (RegistrationSuccessful p) # rs) = p # issued_pins rs"
| "issued_pins (r # rs) = issued_pins rs"

text \<open>The digit strings of length six.\<close>

definition six_digits :: "string \<Rightarrow> bool" where
  "six_digits p = (length p = 6 \<and> list_all is_ascii_digit p)"

text \<open>The row that the \<^verbatim>\<open>INSERT\<close> of \<^verbatim>\<open>register_user\<close> writes for a PIN.\<close>

definition identifier_record ::
  "string \<Rightarrow> string \<Rightarrow> string \<Rightarrow> string \<Rightarrow> SchoolLevel \<Rightarrow> identifier_row" where
  "identifier_record p gs sn uid level =
     \<lparr>id_pin = p, id_grade_section = Some gs, id_student_no = Some sn,
      telegram_id = Some uid, id_school_level = Some (SchoolLevel_value level)\<rparr>"

text \<open>
  An identity has completed a registration at a level when its row of \<^verbatim>\<open>users\<close> (the
  first one, the only one under the primary key) has that level and has the three columns
  set that the \<^verbatim>\<open>UPDATE\<close> of \<^verbatim>\<open>register_user\<close> writes.
\<close>

definition registered_as :: "string \<Rightarrow> SchoolLevel \<Rightarrow> store \<Rightarrow> bool" where
  "registered_as uid level s =
     (case find (\<lambda>r. user_id r = uid) (users s) of
        None \<Rightarrow> False
      | Some r \<Rightarrow> school_level r = Some (SchoolLevel_value level) \<and>
                  grade_section r \<noteq> None \<and> student_no r \<noteq> None \<and> pin r \<noteq> None)"

text \<open>The next call of \<^verbatim>\<open>db_execute\<close> goes through.\<close>

definition goes_through :: "store \<Rightarrow> bool" where
  "goes_through s = (case outages s of [] \<Rightarrow> True | down # rest \<Rightarrow> \<not> down)"


section \<open>Concrete inputs\<close>

text \<open>Draws: the same number every time; one number first and another from then on.\<close>

definition draw_always :: "nat \<Rightarrow> nat \<Rightarrow> nat" where
  "draw_always n i = n"

definition draw_first_then :: "nat \<Rightarrow> nat \<Rightarrow> nat \<Rightarrow> nat" where
  "draw_first_then a b i = (if i = 0 then a else b)"

text \<open>The identity \<^verbatim>\<open>u1\<close> after it chose the middle school and before any registration,
  in a database with no identifier yet and a given script of outages.\<close>

definition user_u1_middle :: user_row where
  "user_u1_middle =
     \<lparr>user_id = ''u1'', grade_section = None, student_no = None, pin = None,
      language = Some ''en'', school_level = Some ''middle'', registered_at = Some 0\<rparr>"

definition store_u1_middle :: "bool list \<Rightarrow> store" where
  "store_u1_middle script =
     \<lparr>users = [user_u1_middle], student_identifiers = [], outages = script,
      send_outages = []\<rparr>"

text \<open>The same identity once registered in 7A as student 10 with the PIN 000123.\<close>

definition store_u1_registered :: store where
  "store_u1_registered =
     \<lparr>users = [user_u1_middle\<lparr>grade_section := Some ''7A'', student_no := Some ''10'',
                               pin := Some ''000123''\<rparr>],
      student_identifiers = [identifier_record ''000123'' ''7A'' ''10'' ''u1'' MIDDLE],
      outages = [], send_outages = []\<rparr>"

text \<open>A database in which \<^verbatim>\<open>users\<close> has no row (none for \<^verbatim>\<open>u1\<close>, then: the check for an
  existing registration finds nothing) and no identifier, with the two scripts given.\<close>

definition store_no_users :: "bool list \<Rightarrow> bool list \<Rightarrow> store" where
  "store_no_users script sends =
     \<lparr>users = [], student_identifiers = [], outages = script, send_outages = sends\<rparr>"

definition register_7A_10 :: message where
  "register_7A_10 = \<lparr>from_user_id = ''u1'', msg_text = ''/register 7A 10''\<rparr>"

definition register_9Z_10 :: message where
  "register_9Z_10 = \<lparr>from_user_id = ''u1'', msg_text = ''/register 9Z 10''\<rparr>"

text \<open>The student number of this message is the superscript two, \<^verbatim>\<open>\xb2\<close>.\<close>

definition register_7A_superscript :: message where
  "register_7A_superscript =
     \<lparr>from_user_id = ''u1'', msg_text = ''/register 7A '' @ [char_of (178::nat)]\<rparr>"

text \<open>Five attempts of \<^verbatim>\<open>u1\<close> in the first five microseconds, nothing else stored.\<close>

definition five_attempts :: attempts where
  "five_attempts = (\<lambda>user_id. if user_id = ''u1'' then [0, 1, 2, 3, 4] else [])"

text \<open>Two requests whose PIN generation draws 123 first; the second one draws 456 after
  that.\<close>

definition two_requests :: "request list" where
  "two_requests =
     [\<lparr>req_user_id = ''u1'', req_grade_section = ''7A'', req_student_no = ''10'',
       req_school_level = MIDDLE, req_draws = draw_always 123\<rparr>,
      \<lparr>req_user_id = ''u2'', req_grade_section = ''1B'', req_student_no = ''7'',
       req_school_level = ELEMENTARY, req_draws = draw_first_then 123 456\<rparr>]"


section \<open>Lemmas: the format of a PIN\<close>

lemma digit_char_ascii: "k < 10 \<Longrightarrow> is_ascii_digit (''0123456789'' ! k)"
proof -
  assume "k < 10"
  then have "k \<in> {0, 1, 2, 3, 4, 5, 6, 7, 8, 9}" by auto
  then show ?thesis by (auto simp: is_ascii_digit_def)
qed

lemma str_nat_small: "n < 10 \<Longrightarrow> str_nat n = [''0123456789'' ! n]"
  by (subst str_nat.simps) simp

lemma str_nat_large:
  "\<not> n < 10 \<Longrightarrow> str_nat n = str_nat (n div 10) @ [''0123456789'' ! (n mod 10)]"
  by (subst str_nat.simps) simp

lemma str_nat_digits: "list_all is_ascii_digit (str_nat n)"
proof (induction n rule: str_nat.induct)
  case (1 n)
  show ?case
  proof (cases "n < 10")
    case True
    then show ?thesis by (simp add: str_nat_small digit_char_ascii)
  next
    case False
    with 1 show ?thesis by (simp add: str_nat_large digit_char_ascii)
  qed
qed

lemma str_nat_length: "0 < k \<Longrightarrow> n < 10 ^ k \<Longrightarrow> length (str_nat n) \<le> k"
proof (induction k arbitrary: n)
  case 0
  then show ?case by simp
next
  case (Suc k)
  show ?case
  proof (cases "n < 10")
    case True
    then show ?thesis by (simp add: str_nat_small)
  next
    case False
    then have k: "0 < k" using Suc.prems by (cases k) auto
    have "n div 10 < 10 ^ k"
      using Suc.prems by (simp add: less_mult_imp_div_less mult.commute)
    with Suc.IH k have "length (str_nat (n div 10)) \<le> k" by blast
    with False show ?thesis by (simp add: str_nat_large)
  qed
qed

lemma format_06d_six_digits: "n < 1000000 \<Longrightarrow> six_digits (format_06d n)"
proof -
  assume "n < 1000000"
  then have "length (str_nat n) \<le> 6" using str_nat_length [of 6 n] by simp
  then show ?thesis
    using str_nat_digits [of n]
    by (auto simp: six_digits_def format_06d_def list_all_iff is_ascii_digit_def)
qed

lemma drawn_pin_six_digits: "six_digits (format_06d (randbelow 1000000 e))"
  by (rule format_06d_six_digits) (simp add: randbelow_def)

lemma replicate_numeral: "replicate (numeral k) x = x # replicate (pred_numeral k) x"
  by (simp add: numeral_eq_Suc)

lemmas format_eval = format_06d_def randbelow_def str_nat_small str_nat_large replicate_numeral


section \<open>Lemmas: what the statements do to the tables\<close>

lemma db_execute_select_pin:
  "db_execute (select_pin p) s = (r, s1) \<Longrightarrow>
     users s1 = users s \<and> student_identifiers s1 = student_identifiers s \<and>
     (r = Inl OperationalError \<or> r = Inr (map id_pin (rows_with_pin p s)))"
  by (auto simp: db_execute_def select_pin_def rows_with_pin_def split: list.splits if_splits)

lemma rows_with_pin_empty: "(rows_with_pin p s = []) = (p \<notin> set (pins s))"
  by (auto simp: rows_with_pin_def pins_def filter_empty_conv)

lemma pin_attempts_result:
  "pin_attempts n i draws s = (r, s1) \<Longrightarrow>
     users s1 = users s \<and> student_identifiers s1 = student_identifiers s \<and>
     (\<forall>p. r = Inr p \<longrightarrow> p \<notin> set (pins s) \<and> six_digits p)"
proof (induction n arbitrary: i s)
  case 0
  then show ?case by auto
next
  case (Suc n)
  let ?p = "format_06d (randbelow 1000000 (draws i))"
  obtain r0 s0 where q: "db_execute (select_pin ?p) s = (r0, s0)"
    by (cases "db_execute (select_pin ?p) s")
  note t = db_execute_select_pin [OF q]
  have same: "pins s0 = pins s" using t by (simp add: pins_def)
  from t have "r0 = Inl OperationalError \<or> r0 = Inr (map id_pin (rows_with_pin ?p s))"
    by simp
  then show ?case
  proof
    assume "r0 = Inl OperationalError"
    with Suc.prems q t show ?thesis by (auto simp: Let_def)
  next
    assume r0: "r0 = Inr (map id_pin (rows_with_pin ?p s))"
    show ?thesis
    proof (cases "?p \<in> set (pins s)")
      case False
      with Suc.prems q r0 t show ?thesis
        by (auto simp: Let_def rows_with_pin_empty drawn_pin_six_digits)
    next
      case True
      with Suc.prems q r0 have "pin_attempts n (Suc i) draws s0 = (r, s1)"
        by (simp add: Let_def rows_with_pin_empty)
      from Suc.IH [OF this] t same show ?thesis by simp
    qed
  qed
qed

lemma generate_unique_pin_result:
  "generate_unique_pin draws s = (r, s1) \<Longrightarrow>
     users s1 = users s \<and> student_identifiers s1 = student_identifiers s \<and>
     (\<forall>p. r = Inr p \<longrightarrow> p \<notin> set (pins s) \<and> six_digits p)"
  unfolding generate_unique_pin_def by (rule pin_attempts_result)

lemma db_execute_insert:
  "db_execute (insert_student_identifier p gs sn uid (SchoolLevel_value level)) s = (r, s1) \<Longrightarrow>
     users s1 = users s \<and>
     (case r of
        Inl e \<Rightarrow> student_identifiers s1 = student_identifiers s
      | Inr u \<Rightarrow> p \<notin> set (pins s) \<and>
                 student_identifiers s1 = student_identifiers s @ [identifier_record p gs sn uid level])"
  by (auto simp: db_execute_def insert_student_identifier_def identifier_record_def pins_def
           split: list.splits if_splits)

lemma db_execute_update:
  "db_execute (update_user gs sn p uid) s = (r, s1) \<Longrightarrow>
     student_identifiers s1 = student_identifiers s \<and>
     (case r of
        Inl e \<Rightarrow> users s1 = users s
      | Inr u \<Rightarrow> users s1 = users (snd (update_user gs sn p uid s)))"
  by (auto simp: db_execute_def update_user_def split: list.splits if_splits)

lemma update_user_users:
  "users s1 = users s \<Longrightarrow>
     users (snd (update_user gs sn p uid s1)) = users (snd (update_user gs sn p uid s))"
  by (simp add: update_user_def)

lemma reply_to_result:
  "reply_to x s = (r, s1) \<Longrightarrow>
     users s1 = users s \<and> student_identifiers s1 = student_identifiers s \<and>
     (r = Inr x \<or> r = Inl ApiException)"
  by (auto simp: reply_to_def split: list.splits if_splits)

lemma register_user_try_cases:
  assumes "register_user_try uid gs sn level draws s = (r, s')"
  shows "((r = Inr RegistrationFailed \<or> r = Inl ApiException) \<and> users s' = users s \<and>
          student_identifiers s' = student_identifiers s)
       \<or> (\<exists>p. p \<notin> set (pins s) \<and> six_digits p \<and>
             student_identifiers s' = student_identifiers s @ [identifier_record p gs sn uid level] \<and>
             (((r = Inr RegistrationFailed \<or> r = Inl ApiException) \<and> users s' = users s) \<or>
              ((r = Inr (RegistrationSuccessful p) \<or> r = Inr RegistrationFailed \<or>
                r = Inl ApiException) \<and>
               users s' = users (snd (update_user gs sn p uid s)))))"
proof -
  obtain r1 s1 where g: "generate_unique_pin draws s = (r1, s1)"
    by (cases "generate_unique_pin draws s")
  note g1 = generate_unique_pin_result [OF g]
  show ?thesis
  proof (cases r1)
    case (Inl e)
    with assms g have "reply_to RegistrationFailed s1 = (r, s')"
      by (simp add: register_user_try_def)
    from reply_to_result [OF this] g1 show ?thesis by auto
  next
    case (Inr p)
    note r1 = this
    obtain r2 s2 where i: "db_execute (insert_student_identifier p gs sn uid
                              (SchoolLevel_value level)) s1 = (r2, s2)"
      by (cases "db_execute (insert_student_identifier p gs sn uid (SchoolLevel_value level)) s1")
    note i1 = db_execute_insert [OF i]
    show ?thesis
    proof (cases r2)
      case (Inl e)
      with assms g r1 i have "reply_to RegistrationFailed s2 = (r, s')"
        by (simp add: register_user_try_def)
      from reply_to_result [OF this] g1 i1 Inl show ?thesis by auto
    next
      case (Inr u)
      note r2 = this
      obtain r3 s3 where u: "db_execute (update_user gs sn p uid) s2 = (r3, s3)"
        by (cases "db_execute (update_user gs sn p uid) s2")
      note u1 = db_execute_update [OF u]
      have us: "users s2 = users s" using i1 g1 by simp
      have ids: "student_identifiers s3 =
                   student_identifiers s @ [identifier_record p gs sn uid level]"
        using u1 i1 g1 r2 by simp
      have fresh: "p \<notin> set (pins s) \<and> six_digits p" using g1 r1 by simp
      show ?thesis
      proof (cases r3)
        case (Inl e)
        with assms g r1 i r2 u have "reply_to RegistrationFailed s3 = (r, s')"
          by (simp add: register_user_try_def)
        note f = reply_to_result [OF this]
        have "users s3 = users s" using u1 Inl us by simp
        with f ids fresh show ?thesis by auto
      next
        case (Inr u')
        note r3 = this
        have upd: "users s3 = users (snd (update_user gs sn p uid s))"
          using u1 Inr update_user_users [OF us] by simp
        obtain r4 s4 where t: "reply_to (RegistrationSuccessful p) s3 = (r4, s4)"
          by (cases "reply_to (RegistrationSuccessful p) s3")
        note t1 = reply_to_result [OF t]
        show ?thesis
        proof (cases r4)
          case (Inr x)
          with assms g r1 i r2 u r3 t have "r = r4 \<and> s' = s4"
            by (simp add: register_user_try_def)
          with t1 Inr upd ids fresh show ?thesis by auto
        next
          case (Inl e)
          with assms g r1 i r2 u r3 t have "reply_to RegistrationFailed s4 = (r, s')"
            by (simp add: register_user_try_def)
          note f = reply_to_result [OF this]
          with t1 upd ids fresh show ?thesis by auto
        qed
      qed
    qed
  qed
qed

lemma registrations_pins:
  "distinct (pins s) \<Longrightarrow> registrations qs s = (rs, s') \<Longrightarrow>
     distinct (issued_pins rs) \<and> set (issued_pins rs) \<inter> set (pins s) = {} \<and>
     set (issued_pins rs) \<subseteq> set (pins s') \<and> set (pins s) \<subseteq> set (pins s') \<and>
     distinct (pins s')"
proof (induction qs arbitrary: s rs s')
  case Nil
  then show ?case by simp
next
  case (Cons q qs)
  obtain r s1 where t: "register_user_try (req_user_id q) (req_grade_section q)
      (req_student_no q) (req_school_level q) (req_draws q) s = (r, s1)"
    by (cases "register_user_try (req_user_id q) (req_grade_section q)
      (req_student_no q) (req_school_level q) (req_draws q) s")
  obtain rs1 s2 where rest: "registrations qs s1 = (rs1, s2)"
    by (cases "registrations qs s1")
  from Cons.prems(2) t rest have out: "rs = r # rs1" "s' = s2" by simp_all
  from register_user_try_cases [OF t]
  consider (same) "issued_pins (r # rs1) = issued_pins rs1" "pins s1 = pins s"
    | (orphan) p where "issued_pins (r # rs1) = issued_pins rs1" "p \<notin> set (pins s)"
        "pins s1 = pins s @ [p]"
    | (issued) p where "issued_pins (r # rs1) = p # issued_pins rs1" "p \<notin> set (pins s)"
        "pins s1 = pins s @ [p]"
    by (auto simp: pins_def identifier_record_def)
  then show ?case
  proof cases
    case same
    with Cons.prems(1) have "distinct (pins s1)" by simp
    from Cons.IH [OF this rest] same out show ?thesis by simp
  next
    case orphan
    with Cons.prems(1) have "distinct (pins s1)" by simp
    from Cons.IH [OF this rest] orphan out show ?thesis by auto
  next
    case issued
    with Cons.prems(1) have "distinct (pins s1)" by simp
    from Cons.IH [OF this rest] issued out show ?thesis by auto
  qed
qed


section \<open>Lemmas: the rate limiter\<close>

lemma is_rate_limited_other:
  "u \<noteq> uid \<Longrightarrow> snd (is_rate_limited uid now ua) u = ua u"
  by (simp add: is_rate_limited_def Let_def)

lemma is_rate_limited_bounded:
  "length (ua u) \<le> RATE_LIMIT_max_attempts \<Longrightarrow>
     length (snd (is_rate_limited uid now ua) u) \<le> RATE_LIMIT_max_attempts"
proof (cases "u = uid")
  case False
  assume "length (ua u) \<le> RATE_LIMIT_max_attempts"
  with False show ?thesis by (simp add: is_rate_limited_other)
next
  case True
  assume b: "length (ua u) \<le> RATE_LIMIT_max_attempts"
  let ?kept = "filter (\<lambda>t. now - t < timedelta_seconds RATE_LIMIT_period) (ua uid)"
  have "length ?kept \<le> length (ua uid)" by (rule length_filter_le)
  also have "\<dots> \<le> RATE_LIMIT_max_attempts" using b True by simp
  finally have k: "length ?kept \<le> RATE_LIMIT_max_attempts" .
  from k True show ?thesis by (auto simp: is_rate_limited_def Let_def)
qed

lemma checks_bounded:
  "\<forall>u. length (ua u) \<le> RATE_LIMIT_max_attempts \<Longrightarrow>
     length (snd (checks calls ua) u) \<le> RATE_LIMIT_max_attempts"
proof (induction calls arbitrary: ua)
  case Nil
  then show ?case by simp
next
  case (Cons c calls)
  obtain uid now where c: "c = (uid, now)" by (cases c)
  have "\<forall>u. length (snd (is_rate_limited uid now ua) u) \<le> RATE_LIMIT_max_attempts"
    using Cons.prems by (simp add: is_rate_limited_bounded)
  from Cons.IH [OF this]
  have "length (snd (checks calls (snd (is_rate_limited uid now ua))) u)
          \<le> RATE_LIMIT_max_attempts" .
  with c show ?case
    by (cases "is_rate_limited uid now ua"; cases "checks calls (snd (is_rate_limited uid now ua))")
       simp
qed


section \<open>Lemmas: the handler\<close>

lemma get_user_language_tables:
  "get_user_language uid s = (r, s1) \<Longrightarrow>
     users s1 = users s \<and> student_identifiers s1 = student_identifiers s"
  by (auto simp: get_user_language_def db_execute_def select_language_def
           split: list.splits if_splits)

lemma get_user_school_level_result:
  "get_user_school_level uid s = (r, s1) \<Longrightarrow>
     users s1 = users s \<and> student_identifiers s1 = student_identifiers s \<and>
     (\<forall>level. r = Inr (Some level) \<longrightarrow> filter (\<lambda>r. user_id r = uid) (users s) \<noteq> [])"
  by (auto simp: get_user_school_level_def db_execute_def select_school_level_def
           split: list.splits if_splits option.splits)

lemma db_execute_select_existing:
  "db_execute (select_grade_section_student_no uid) s = (r, s1) \<Longrightarrow>
     users s1 = users s \<and> student_identifiers s1 = student_identifiers s \<and>
     (\<forall>rows. r = Inr rows \<longrightarrow> (rows = []) = (filter (\<lambda>r. user_id r = uid) (users s) = []))"
  by (auto simp: db_execute_def select_grade_section_student_no_def
           split: list.splits if_splits)

lemma register_user_result:
  assumes "register_user m draws s = (r, s')"
  shows "users s' = users s \<and> student_identifiers s' = student_identifiers s \<and>
         r \<noteq> Inr (RegistrationSuccessful p) \<and> r \<noteq> Inr RegistrationFailed"
proof -
  let ?uid = "from_user_id m"
  obtain r1 s1 where l: "get_user_language ?uid s = (r1, s1)"
    by (cases "get_user_language ?uid s")
  note l1 = get_user_language_tables [OF l]
  obtain r2 s2 where v: "get_user_school_level ?uid s1 = (r2, s2)"
    by (cases "get_user_school_level ?uid s1")
  note v1 = get_user_school_level_result [OF v]
  obtain r3 s3 where e: "db_execute (select_grade_section_student_no ?uid) s2 = (r3, s3)"
    by (cases "db_execute (select_grade_section_student_no ?uid) s2")
  note e1 = db_execute_select_existing [OF e]
  have t2: "users s2 = users s \<and> student_identifiers s2 = student_identifiers s"
    using l1 v1 by simp
  have t3: "users s3 = users s \<and> student_identifiers s3 = student_identifiers s"
    using t2 e1 by simp
  have known: "\<And>level rows. r2 = Inr (Some level) \<Longrightarrow> r3 = Inr rows \<Longrightarrow> rows \<noteq> []"
    using v1 e1 by simp
  show ?thesis
    using assms l v e l1 t2 t3 known
    by (auto simp: register_user_def Let_def MESSAGES_def
             split: sum.splits option.splits if_splits dest!: reply_to_result)
qed

lemma on_register_result:
  assumes "on_register m now draws (ua, s) = (r, ua', s')"
  shows "users s' = users s \<and> student_identifiers s' = student_identifiers s \<and>
         r \<noteq> Inr (RegistrationSuccessful p)"
proof (cases "fst (is_rate_limited (from_user_id m) now ua)")
  case True
  obtain r1 s1 where l: "get_user_language (from_user_id m) s = (r1, s1)"
    by (cases "get_user_language (from_user_id m) s")
  from get_user_language_tables [OF l] assms True l show ?thesis
    by (auto simp: on_register_def rate_limited_def split: prod.splits sum.splits
             dest!: reply_to_result)
next
  case False
  obtain r1 s1 where b: "register_user m draws s = (r1, s1)"
    by (cases "register_user m draws s")
  from register_user_result [OF b, of p] assms False b show ?thesis
    by (auto simp: on_register_def rate_limited_def split: prod.splits)
qed

lemma find_filter: "find P xs = Some r \<Longrightarrow> \<exists>rest. filter P xs = r # rest"
  by (induction xs) (auto split: if_splits)

lemma SchoolLevel_of_value_value: "SchoolLevel_of_value (SchoolLevel_value level) = Some level"
  by (cases level) (simp_all add: SchoolLevel_of_value_def)

lemma ascii_digits_isdigit: "int_of_str sn = Inr n \<Longrightarrow> isdigit sn"
  by (auto simp: int_of_str_def isdigit_def isdigit_char_def list_all_iff split: if_splits)


section \<open>Lemmas: evaluation at the concrete inputs\<close>

lemma pin_attempts_numeral:
  "pin_attempts (numeral k) i draws s =
     (let p = format_06d (randbelow 1000000 (draws i))
      in case db_execute (select_pin p) s of
           (Inl e, s1) \<Rightarrow> (Inl e, s1)
         | (Inr rows, s1) \<Rightarrow>
             if rows = [] then (Inr p, s1) else pin_attempts (pred_numeral k) (Suc i) draws s1)"
proof -
  have "pin_attempts (numeral k) i draws s = pin_attempts (Suc (pred_numeral k)) i draws s"
    by (simp only: numeral_eq_Suc)
  then show ?thesis by (simp only: pin_attempts.simps)
qed

lemmas step_eval = register_user_try_def generate_unique_pin_def pin_attempts_numeral
  draw_always_def draw_first_then_def format_eval db_execute_def select_pin_def
  insert_student_identifier_def update_user_def identifier_record_def reply_to_def
  store_u1_middle_def user_u1_middle_def store_no_users_def

lemma try_u1_ok:
  "register_user_try ''u1'' ''7A'' ''10'' MIDDLE (draw_always 123) (store_u1_middle []) =
     (Inr (RegistrationSuccessful ''000123''), store_u1_registered)"
  by (simp add: step_eval store_u1_registered_def)



lemma registrations_two:
  "registrations two_requests (store_u1_middle []) =
     ([Inr (RegistrationSuccessful ''000123''), Inr (RegistrationSuccessful ''000456'')],
      \<lparr>users = users store_u1_registered,
       student_identifiers = [identifier_record ''000123'' ''7A'' ''10'' ''u1'' MIDDLE,
                              identifier_record ''000456'' ''1B'' ''7'' ''u2'' ELEMENTARY],
       outages = [], send_outages = []\<rparr>)"
  by (simp add: two_requests_def step_eval store_u1_registered_def Let_def)

lemma split_7A: "split ''/register 7A 10'' = [''/register'', ''7A'', ''10'']"
  by (simp add: split_def isspace_def)

lemma split_9Z: "split ''/register 9Z 10'' = [''/register'', ''9Z'', ''10'']"
  by (simp add: split_def isspace_def)

lemma superscript_text:
  "split (msg_text register_7A_superscript) = [''/register'', ''7A'', [char_of (178::nat)]]"
  by (simp add: register_7A_superscript_def split_def isspace_def)

lemma superscript_sender: "from_user_id register_7A_superscript = ''u1''"
  by (simp add: register_7A_superscript_def)

lemma int_of_str_10: "int_of_str ''10'' = Inr 10"
  by (simp add: int_of_str_def is_ascii_digit_def)

lemma int_of_str_superscript: "int_of_str [char_of (178::nat)] = Inl ValueError"
  by (simp add: int_of_str_def is_ascii_digit_def)

lemmas handler_eval = on_register_def rate_limited_def is_rate_limited_def no_attempts_def
  register_user_def get_user_language_def get_user_school_level_def db_execute_def
  select_language_def select_school_level_def select_grade_section_student_no_def
  SchoolLevel_of_value_def valid_sections_def isdigit_def isdigit_char_def is_ascii_digit_def
  RATE_LIMIT_max_attempts_def RATE_LIMIT_period_def timedelta_seconds_def reply_to_def Let_def


section \<open>The properties\<close>

subsection \<open>C1: a registration is found again by its PIN\<close>

text \<open>
  C1. When the registration step of \<^verbatim>\<open>register_user\<close> (PIN generation, insert, update)
  answers with a PIN, the rows of the identifier table with that PIN are exactly one row,
  which carries the grade/section, the student number and the school level of the request
  and the registering identity. This holds for every request and every database, the
  valid triples and the identities without a registration among them.
\<close>

theorem register_then_find:
  assumes "register_user_try uid gs sn level draws s = (Inr (RegistrationSuccessful p), s')"
  shows "rows_with_pin p s' = [identifier_record p gs sn uid level]"
proof -
  from register_user_try_cases [OF assms]
  have "\<exists>q. q \<notin> set (pins s) \<and>
        student_identifiers s' = student_identifiers s @ [identifier_record q gs sn uid level] \<and>
        Inr (RegistrationSuccessful p) = (Inr (RegistrationSuccessful q) :: exn + reply)"
    by auto
  then have "p \<notin> set (pins s) \<and>
        student_identifiers s' = student_identifiers s @ [identifier_record p gs sn uid level]"
    by auto
  then show ?thesis
    by (auto simp: rows_with_pin_def pins_def identifier_record_def filter_empty_conv)
qed

text \<open>The identity \<^verbatim>\<open>u1\<close> of the middle school registers in 7A as student 10 and draws
  123: the PIN is 000123 and its row is found.\<close>

theorem register_then_find_witness:
  "register_user_try ''u1'' ''7A'' ''10'' MIDDLE (draw_always 123) (store_u1_middle []) =
     (Inr (RegistrationSuccessful ''000123''), store_u1_registered) \<and>
   rows_with_pin ''000123'' store_u1_registered =
     [identifier_record ''000123'' ''7A'' ''10'' ''u1'' MIDDLE]"
  using register_then_find [OF try_u1_ok] try_u1_ok by simp

subsection \<open>C2: no PIN is issued twice\<close>

text \<open>
  C2. A PIN that \<^verbatim>\<open>generate_unique_pin\<close> returns is not in the identifier table at that
  moment; and over any run of registrations from a table whose PINs are distinct, the PINs
  issued are distinct, none of them was in the table before, each is in the table
  afterwards, and the PINs of the table are distinct still.
\<close>

theorem pins_never_repeat:
  "(fst (generate_unique_pin draws s) = Inr p \<longrightarrow> p \<notin> set (pins s)) \<and>
   (distinct (pins s) \<longrightarrow>
      distinct (issued_pins (fst (registrations qs s))) \<and>
      set (issued_pins (fst (registrations qs s))) \<inter> set (pins s) = {} \<and>
      set (issued_pins (fst (registrations qs s))) \<subseteq> set (pins (snd (registrations qs s))) \<and>
      distinct (pins (snd (registrations qs s))))"
proof -
  have "fst (generate_unique_pin draws s) = Inr p \<longrightarrow> p \<notin> set (pins s)"
    using generate_unique_pin_result [of draws s "fst (generate_unique_pin draws s)"
        "snd (generate_unique_pin draws s)"]
    by simp
  moreover have "distinct (pins s) \<longrightarrow>
      distinct (issued_pins (fst (registrations qs s))) \<and>
      set (issued_pins (fst (registrations qs s))) \<inter> set (pins s) = {} \<and>
      set (issued_pins (fst (registrations qs s))) \<subseteq> set (pins (snd (registrations qs s))) \<and>
      distinct (pins (snd (registrations qs s)))"
    using registrations_pins [of s qs "fst (registrations qs s)" "snd (registrations qs s)"]
    by simp
  ultimately show ?thesis by blast
qed

text \<open>Two registrations that both draw 123 first: the second one draws again and the
  PINs issued are 000123 and 000456.\<close>

theorem pins_never_repeat_witness:
  "fst (generate_unique_pin (draw_always 123) (store_u1_middle [])) = Inr ''000123'' \<and>
   ''000123'' \<notin> set (pins (store_u1_middle [])) \<and>
   distinct (pins (store_u1_middle [])) \<and>
   issued_pins (fst (registrations two_requests (store_u1_middle []))) = [''000123'', ''000456''] \<and>
   distinct (issued_pins (fst (registrations two_requests (store_u1_middle [])))) \<and>
   distinct (pins (snd (registrations two_requests (store_u1_middle []))))"
proof -
  have a: "fst (generate_unique_pin (draw_always 123) (store_u1_middle [])) = Inr ''000123''"
    by (simp add: store_u1_middle_def generate_unique_pin_def pin_attempts_numeral
        draw_always_def format_eval db_execute_def select_pin_def)
  have b: "distinct (pins (store_u1_middle []))"
    by (simp add: pins_def store_u1_middle_def)
  from pins_never_repeat [of "draw_always 123" "store_u1_middle []" "''000123''" two_requests]
    a b registrations_two
  show ?thesis by simp
qed

subsection \<open>C3: the two writes of a registration\<close>




subsection \<open>C4: five allowed, the sixth blocked, allowed again after the window\<close>

text \<open>
  C4. An identity with nothing stored makes seven checks. The first six come in order
  within less than 60 seconds, the seventh at least 60 seconds after the first. Then the
  first five are allowed, the sixth is blocked and the seventh is allowed
  (\<open>True\<close> is "blocked").
\<close>

theorem rate_limiter_window:
  assumes "ua uid = []"
    and "t1 \<le> t2" "t2 \<le> t3" "t3 \<le> t4" "t4 \<le> t5" "t5 \<le> t6"
    and "t6 - t1 < timedelta_seconds 60"
    and "timedelta_seconds 60 \<le> t7 - t1"
  shows "fst (checks [(uid, t1), (uid, t2), (uid, t3), (uid, t4), (uid, t5), (uid, t6),
                      (uid, t7)] ua)
         = [False, False, False, False, False, True, False]"
  using assms
  by (simp add: is_rate_limited_def Let_def RATE_LIMIT_max_attempts_def RATE_LIMIT_period_def
      timedelta_seconds_def)

text \<open>Checks at 0, 1, 2, 3 and 4 microseconds, one a microsecond before the minute is
  over and one when it is over.\<close>

theorem rate_limiter_window_witness:
  "no_attempts ''u1'' = [] \<and> (59999999::int) - 0 < timedelta_seconds 60 \<and>
   timedelta_seconds 60 \<le> (60000000::int) - 0 \<and>
   fst (checks [(''u1'', 0), (''u1'', 1), (''u1'', 2), (''u1'', 3), (''u1'', 4),
                (''u1'', 59999999), (''u1'', 60000000)] no_attempts)
     = [False, False, False, False, False, True, False]"
  using rate_limiter_window [of no_attempts "''u1''" 0 1 2 3 4 59999999 60000000]
  by (simp add: no_attempts_def timedelta_seconds_def)

subsection \<open>C5: the first registration of \<^verbatim>\<open>u1\<close>\<close>

text \<open>
  C5 expects that \<^verbatim>\<open>u1\<close>, recorded at the middle level and not registered yet, registers
  in 7A as student 10 and receives a PIN of six digits. The handler answers that \<^verbatim>\<open>u1\<close>
  is registered already: the row that records the level is the row that the check for an
  existing registration finds. (By \<open>on_register_result\<close> the handler answers with a PIN on
  no input at all; by \<open>drawn_pin_six_digits\<close> every PIN drawn has six digits.)
\<close>

theorem register_u1_middle_rejected:
  "fst (on_register register_7A_10 0 (draw_always 123) (no_attempts, store_u1_middle []))
     = Inr AlreadyRegistered"
  by (simp add: handler_eval register_7A_10_def split_7A int_of_str_10
      store_u1_middle_def user_u1_middle_def)

subsection \<open>C6: registering a second time\<close>

text \<open>
  C6 says that a registered identity is told so whatever the arguments, and nothing else.
  \<^verbatim>\<open>u1\<close>, registered at the middle level, is told that the grade/section is invalid on
  \<^verbatim>\<open>/register 9Z 10\<close>, since the arguments are checked first; is told to wait on a sixth
  message within the minute; is told nothing when the student number is a superscript
  digit, which \<^verbatim>\<open>int\<close> refuses, when the database is out, or when the reply cannot be sent.
\<close>

theorem second_register_other_answers:
  "registered_as ''u1'' MIDDLE store_u1_registered \<and>
   fst (on_register register_9Z_10 0 (draw_always 123) (no_attempts, store_u1_registered))
     = Inr InvalidGradeSection \<and>
   fst (on_register register_7A_10 5 (draw_always 123) (five_attempts, store_u1_registered))
     = Inr TooManyRequests \<and>
   fst (on_register register_7A_superscript 0 (draw_always 123)
          (no_attempts, store_u1_registered))
     = Inl ValueError \<and>
   fst (on_register register_7A_10 0 (draw_always 123)
          (no_attempts, store_u1_registered\<lparr>outages := [True]\<rparr>))
     = Inl OperationalError \<and>
   fst (on_register register_7A_10 0 (draw_always 123)
          (no_attempts, store_u1_registered\<lparr>send_outages := [True]\<rparr>))
     = Inl ApiException"
proof -
  have a: "registered_as ''u1'' MIDDLE store_u1_registered"
    by (simp add: registered_as_def store_u1_registered_def user_u1_middle_def)
  have b: "fst (on_register register_9Z_10 0 (draw_always 123)
                  (no_attempts, store_u1_registered)) = Inr InvalidGradeSection"
    by (simp add: handler_eval register_9Z_10_def split_9Z store_u1_registered_def
        user_u1_middle_def)
  have c: "fst (on_register register_7A_10 5 (draw_always 123)
                  (five_attempts, store_u1_registered)) = Inr TooManyRequests"
    by (simp add: handler_eval register_7A_10_def five_attempts_def store_u1_registered_def
        user_u1_middle_def)
  have d: "fst (on_register register_7A_superscript 0 (draw_always 123)
                  (no_attempts, store_u1_registered)) = Inl ValueError"
    by (simp add: handler_eval superscript_text superscript_sender
        int_of_str_superscript store_u1_registered_def user_u1_middle_def)
  have e: "fst (on_register register_7A_10 0 (draw_always 123)
                  (no_attempts, store_u1_registered\<lparr>outages := [True]\<rparr>))
             = Inl OperationalError"
    by (simp add: handler_eval register_7A_10_def store_u1_registered_def)
  have f: "fst (on_register register_7A_10 0 (draw_always 123)
                  (no_attempts, store_u1_registered\<lparr>send_outages := [True]\<rparr>))
             = Inl ApiException"
    by (simp add: handler_eval register_7A_10_def split_7A int_of_str_10
        store_u1_registered_def user_u1_middle_def)
  from a b c d e f show ?thesis by blast
qed

text \<open>
  C6, as the code has it. For an identity that has completed a registration, the handler
  leaves both tables as they were, whatever the message. And when the rate limiter lets
  the message through, no statement of the database and no sending fails, and the text is
  three words of which the second is a grade/section that is valid for the recorded level
  and the third a student number in ASCII digits between 1 and 60, the answer is that the
  identity is registered already.
\<close>

theorem second_register:
  assumes "registered_as (from_user_id m) level s"
  shows "users (snd (snd (on_register m now draws (ua, s)))) = users s \<and>
         student_identifiers (snd (snd (on_register m now draws (ua, s))))
           = student_identifiers s \<and>
         (outages s = [] \<longrightarrow> send_outages s = [] \<longrightarrow>
          \<not> fst (is_rate_limited (from_user_id m) now ua) \<longrightarrow>
          split (msg_text m) = [cmd, gs, sn] \<longrightarrow> gs \<in> set (valid_sections level) \<longrightarrow>
          int_of_str sn = Inr n \<longrightarrow> 1 \<le> n \<longrightarrow> n \<le> 60 \<longrightarrow>
          fst (on_register m now draws (ua, s)) = Inr AlreadyRegistered)"
proof -
  let ?uid = "from_user_id m"
  obtain r ua' s' where o: "on_register m now draws (ua, s) = (r, ua', s')"
    by (cases "on_register m now draws (ua, s)")
  from on_register_result [OF o]
  have tables: "users s' = users s \<and> student_identifiers s' = student_identifiers s"
    by simp
  from assms obtain row where
    row: "find (\<lambda>r. user_id r = ?uid) (users s) = Some row"
    and lvl: "school_level row = Some (SchoolLevel_value level)"
    by (auto simp: registered_as_def split: option.splits)
  from find_filter [OF row] obtain rest where
    f: "filter (\<lambda>r. user_id r = ?uid) (users s) = row # rest" by blast
  have "fst (on_register m now draws (ua, s)) = Inr AlreadyRegistered"
    if db: "outages s = []" and sending: "send_outages s = []"
      and args: "\<not> fst (is_rate_limited ?uid now ua)" "split (msg_text m) = [cmd, gs, sn]"
      "gs \<in> set (valid_sections level)" "int_of_str sn = Inr n" "1 \<le> n" "n \<le> 60"
  proof -
    have lang: "get_user_language ?uid s = (Inr (language row), s)"
      using db f by (simp add: get_user_language_def db_execute_def select_language_def)
    have level: "get_user_school_level ?uid s = (Inr (Some level), s)"
      using db f lvl
      by (simp add: get_user_school_level_def db_execute_def select_school_level_def
          SchoolLevel_of_value_value)
    have existing: "db_execute (select_grade_section_student_no ?uid) s
                      = (Inr ((grade_section row, student_no row) #
                              map (\<lambda>r. (grade_section r, student_no r)) rest), s)"
      using db f by (simp add: db_execute_def select_grade_section_student_no_def)
    have sent: "reply_to AlreadyRegistered s = (Inr AlreadyRegistered, s)"
      using sending by (simp add: reply_to_def)
    have "register_user m draws s = (Inr AlreadyRegistered, s)"
      using args lang level existing sent ascii_digits_isdigit [OF args(4)]
      by (simp add: register_user_def Let_def)
    with args(1) show ?thesis
      by (cases "is_rate_limited ?uid now ua") (simp add: on_register_def rate_limited_def)
  qed
  with tables o show ?thesis by simp
qed

text \<open>\<^verbatim>\<open>u1\<close>, registered, sends \<^verbatim>\<open>/register 7A 10\<close>.\<close>

theorem second_register_witness:
  "registered_as ''u1'' MIDDLE store_u1_registered \<and> outages store_u1_registered = [] \<and>
   send_outages store_u1_registered = [] \<and>
   \<not> fst (is_rate_limited ''u1'' 0 no_attempts) \<and>
   split (msg_text register_7A_10) = [''/register'', ''7A'', ''10''] \<and>
   ''7A'' \<in> set (valid_sections MIDDLE) \<and> int_of_str ''10'' = Inr 10 \<and>
   fst (on_register register_7A_10 0 (draw_always 123) (no_attempts, store_u1_registered))
     = Inr AlreadyRegistered \<and>
   users (snd (snd (on_register register_7A_10 0 (draw_always 123)
                      (no_attempts, store_u1_registered)))) = users store_u1_registered"
proof -
  have a: "registered_as (from_user_id register_7A_10) MIDDLE store_u1_registered"
    by (simp add: registered_as_def register_7A_10_def store_u1_registered_def
        user_u1_middle_def)
  have b: "outages store_u1_registered = [] \<and> send_outages store_u1_registered = []"
    by (simp add: store_u1_registered_def)
  have c: "\<not> fst (is_rate_limited ''u1'' 0 no_attempts)"
    by (simp add: is_rate_limited_def no_attempts_def RATE_LIMIT_max_attempts_def)
  have d: "split (msg_text register_7A_10) = [''/register'', ''7A'', ''10'']"
    by (simp add: register_7A_10_def split_7A)
  have e: "''7A'' \<in> set (valid_sections MIDDLE)"
    by (simp add: valid_sections_def)
  from second_register [OF a, of 0 "draw_always 123" no_attempts "''/register''" "''7A''"
      "''10''" 10] a b c d e int_of_str_10
  show ?thesis by (simp add: register_7A_10_def)
qed

subsection \<open>C7: as many subject columns as subject names\<close>

text \<open>
  C7. For every school level, every term among S1, S2 and Ave and every language among en
  and am, the column mapping and the subject names exist and the number of subject columns
  is the number of subject names: 8 for the elementary level, 11 for the middle level.
\<close>

theorem column_mapping_consistent:
  assumes "term \<in> {''S1'', ''S2'', ''Ave''}" and "lang \<in> {''en'', ''am''}"
  shows "\<exists>cm names. ColumnMapping level term = Some cm \<and> Subjects level lang = Some names \<and>
           length (col_subjects cm) = length names \<and>
           length names = (case level of ELEMENTARY \<Rightarrow> 8 | MIDDLE \<Rightarrow> 11)"
  using assms
  by (cases level)
     (auto simp: ColumnMapping_ELEMENTARY_def ColumnMapping_MIDDLE_def
        Subjects_ELEMENTARY_def Subjects_MIDDLE_def)

text \<open>The middle level, the yearly average, in Amharic.\<close>

theorem column_mapping_consistent_witness:
  "''Ave'' \<in> {''S1'', ''S2'', ''Ave''} \<and> ''am'' \<in> {''en'', ''am''} \<and>
   (\<exists>cm names. ColumnMapping MIDDLE ''Ave'' = Some cm \<and> Subjects MIDDLE ''am'' = Some names \<and>
           length (col_subjects cm) = length names \<and> length names = 11)"
  using column_mapping_consistent [of "''Ave''" "''am''" MIDDLE] by simp

subsection \<open>C8: at most five stored attempts\<close>

text \<open>
  C8. After any run of rate-limit checks that starts with nothing stored, every identity
  has at most five timestamps stored.
\<close>

theorem attempts_bounded:
  "length (snd (checks calls no_attempts) uid) \<le> 5"
  using checks_bounded [of no_attempts calls uid]
  by (simp add: no_attempts_def RATE_LIMIT_max_attempts_def)

subsection \<open>C9: the value of a cell\<close>

text \<open>
  C9. \<^verbatim>\<open>get_value\<close> returns the value of a cell that has one, and \<^verbatim>\<open>'N/A'\<close> for a cell
  whose value is \<^verbatim>\<open>None\<close> and for \<^verbatim>\<open>None\<close> in place of a cell; on every input it is the
  one or the other, and there is no input on which it raises.
\<close>

theorem get_value_total:
  "get_value (Cell (Some v)) = v \<and> get_value (Cell None) = Text ''N/A'' \<and>
   get_value PyNone = Text ''N/A'' \<and>
   get_value c = (case c of Cell (Some x) \<Rightarrow> x | _ \<Rightarrow> Text ''N/A'')"
  by (cases c) (auto simp: get_value_def split: option.splits)

subsection \<open>C10: the language of an identity without a row\<close>

text \<open>
  C10 says that the lookup returns \<^verbatim>\<open>'en'\<close>, and no error, for every identity without a
  row. When the database is out the lookup raises what \<^verbatim>\<open>db_execute\<close> raises: neither
  function has a handler.
\<close>

theorem get_user_language_outage:
  "''u2'' \<notin> set (map user_id (users (store_u1_middle [True]))) \<and>
   fst (get_user_language ''u2'' (store_u1_middle [True])) = Inl OperationalError"
  by (simp add: get_user_language_def db_execute_def store_u1_middle_def user_u1_middle_def)

text \<open>
  C10, as the code has it. For an identity without a row in \<^verbatim>\<open>users\<close>,
  \<^verbatim>\<open>get_user_language\<close> returns \<^verbatim>\<open>'en'\<close> when the query goes through, and raises the error
  of the database when it does not.
\<close>

theorem get_user_language_no_row:
  assumes "uid \<notin> set (map user_id (users s))"
  shows "fst (get_user_language uid s) =
           (if goes_through s then Inr (Some ''en'') else Inl OperationalError)"
proof -
  have "filter (\<lambda>r. user_id r = uid) (users s) = []"
    using assms by (auto simp: filter_empty_conv)
  then show ?thesis
    by (auto simp: get_user_language_def db_execute_def select_language_def goes_through_def
        split: list.splits)
qed

text \<open>The identity \<^verbatim>\<open>u2\<close> in a database that knows \<^verbatim>\<open>u1\<close> only, the query going
  through.\<close>

theorem get_user_language_no_row_witness:
  "''u2'' \<notin> set (map user_id (users (store_u1_middle [False]))) \<and>
   goes_through (store_u1_middle [False]) \<and>
   fst (get_user_language ''u2'' (store_u1_middle [False])) = Inr (Some ''en'')"
  using get_user_language_no_row [of "''u2''" "store_u1_middle [False]"]
  by (simp add: goes_through_def store_u1_middle_def user_u1_middle_def)

end
